theory Spec2Isabelle
  imports Main "HOL-Library.Code_Target_Nat"
begin

unbundle bit_operations_syntax

section \<open>The data model of \<open>calc::BigInt<IntT>\<close>\<close>

text \<open>
  \<open>bigint.hpp\<close> declares \<open>BigInt<IntT>\<close> with the private members \<open>cap_\<close>,
  \<open>len_\<close> and \<open>val_\<close> and the constant \<open>LIMB = sizeof(IntT) << 3\<close>. The template is
  instantiated for \<open>uint8_t\<close>, \<open>uint16_t\<close> and \<open>uint32_t\<close>; the model takes the limb width
  \<open>L\<close> as the first argument of every operation. A limb is a natural number below \<open>2 ^ L\<close>,
  a 64-bit accumulator (\<open>uint64_t\<close>, \<open>size_t\<close>) is a natural number with the reduction
  modulo \<open>2 ^ 64\<close> written out wherever the source can wrap.

  The buffer \<open>val_\<close> is the list \<open>val\<close>; its length is the capacity \<open>cap_\<close>. The public flag
  \<open>is_signed_\<close> keeps its default \<open>true\<close> throughout the sources, so it is not a field.
  Operations mutate the receiver in place; the model returns the new receiver. The operands of
  a binary operation are distinct objects (no aliasing of \<open>*this\<close> and \<open>rhs\<close>).
\<close>

record bigint =
  len :: nat
  val :: "nat list"

definition cap :: "bigint \<Rightarrow> nat" where
  "cap x = length (val x)"

definition valid_limb :: "nat \<Rightarrow> bool" where
  "valid_limb L = (L = 8 \<or> L = 16 \<or> L = 32)"

definition MAX_CAP :: nat where
  "MAX_CAP = 2 ^ 63"

definition IntT :: "nat \<Rightarrow> nat \<Rightarrow> nat" where
  "IntT L x = x mod 2 ^ L"

definition u64 :: "nat \<Rightarrow> nat" where
  "u64 x = x mod 2 ^ 64"

text \<open>\<open>size_t\<close> and \<open>uint64_t\<close> subtraction of two values below \<open>2 ^ 64\<close>.\<close>

definition sub64 :: "nat \<Rightarrow> nat \<Rightarrow> nat" where
  "sub64 a b = (a + (2 ^ 64 - b mod 2 ^ 64)) mod 2 ^ 64"


text \<open>\<open>std::fill(val_ + i, val_ + j, v)\<close>.\<close>

definition fill :: "nat list \<Rightarrow> nat \<Rightarrow> nat \<Rightarrow> nat \<Rightarrow> nat list" where
  "fill xs i j v = map (\<lambda>k. if i \<le> k \<and> k < j then v else xs ! k) [0..<length xs]"

subsection \<open>Members whose definitions are not in the given sources\<close>

text \<open>
  Modelled from the spec: \<open>Sign\<close>, which is declared in \<open>bigint.hpp\<close> and defined in a file
  that is not part of the sources. "The top bit of \<open>val[len-1]\<close> is the sign."
\<close>

definition Sign :: "nat \<Rightarrow> bigint \<Rightarrow> bool" where
  "Sign L x = (2 ^ (L - 1) \<le> val x ! (len x - 1))"

text \<open>
  Modelled from the spec: \<open>AutoExpandSize\<close>. "Capacity only grows, doubling to the next power
  of two that accommodates \<open>target_len\<close>." New limbs are zero.
\<close>

function grow_cap :: "nat \<Rightarrow> nat \<Rightarrow> nat" where
  "grow_cap c t = (if c = 0 \<or> t \<le> c then c else grow_cap (2 * c) t)"
  by pat_completeness auto
termination
  by (relation "measure (\<lambda>(c, t). t - c)") auto

text \<open>
  The well-formed objects of the data model: \<open>1 \<le> len \<le> cap\<close>, the capacity is a power of
  two that a \<open>size_t\<close> holds, every limb is below \<open>2 ^ L\<close>, and the limbs at
  \<open>[len, cap)\<close> are zero.
\<close>

definition well_formed :: "nat \<Rightarrow> bigint \<Rightarrow> bool" where
  "well_formed L x = (1 \<le> len x \<and> len x \<le> cap x \<and> cap x \<le> MAX_CAP \<and> cap x = grow_cap 1 (cap x)
             \<and> list_all (\<lambda>v. v < 2 ^ L) (val x)
             \<and> list_all (\<lambda>v. v = 0) (drop (len x) (val x)))"

definition AutoExpandSize :: "bigint \<Rightarrow> nat \<Rightarrow> bigint" where
  "AutoExpandSize x target_len =
     x\<lparr>val := val x @ replicate (grow_cap (cap x) target_len - cap x) 0\<rparr>"

text \<open>
  Modelled from the spec: \<open>AutoShrinkSize\<close>. "A shrink step halves \<open>cap\<close> when
  \<open>len \<le> cap/4\<close> and \<open>cap > 1\<close>."
\<close>

definition AutoShrinkSize :: "bigint \<Rightarrow> bigint" where
  "AutoShrinkSize x =
     (if len x \<le> cap x div 4 \<and> 1 < cap x then x\<lparr>val := take (cap x div 2) (val x)\<rparr> else x)"

text \<open>
  Modelled from the spec: \<open>SetLen\<close>. "\<open>SetLen(new_len, preserve_sign)\<close> either truncates
  (zeroing discarded limbs) or extends (sign-extending from the old top limb when
  \<open>preserve_sign\<close>, else zero-extending)."
\<close>

definition SetLen :: "nat \<Rightarrow> bigint \<Rightarrow> nat \<Rightarrow> bool \<Rightarrow> bigint" where
  "SetLen L x new_len preserve_sign =
     (let s = Sign L x;
          x1 = (if cap x < new_len then AutoExpandSize x new_len else x)
      in if new_len < len x
         then x1\<lparr>val := fill (val x1) new_len (len x) 0, len := new_len\<rparr>
         else x1\<lparr>val := fill (val x1) (len x) new_len (if preserve_sign \<and> s then 2 ^ L - 1 else 0),
                 len := new_len\<rparr>)"

text \<open>
  Modelled from the spec: \<open>ShrinkLen\<close>. "Repeatedly drop \<open>val[len-1]\<close> while \<open>len \<ge> 2\<close> and
  (\<open>val[len-1]\<close>, \<open>val[len-2]\<close>'s top bit) collectively encode the same sign as
  (\<open>val[len-2]\<close> alone)." A dropped limb is zeroed, since limbs at \<open>[len, cap)\<close> are held at
  zero.
\<close>

definition redundant_top :: "nat \<Rightarrow> bigint \<Rightarrow> bool" where
  "redundant_top L x =
     (2 \<le> len x \<and>
      ((val x ! (len x - 1) = 0 \<and> val x ! (len x - 2) < 2 ^ (L - 1)) \<or>
       (val x ! (len x - 1) = 2 ^ L - 1 \<and> 2 ^ (L - 1) \<le> val x ! (len x - 2))))"

function ShrinkLen :: "nat \<Rightarrow> bigint \<Rightarrow> bigint" where
  "ShrinkLen L x =
     (if redundant_top L x
      then ShrinkLen L (x\<lparr>val := (val x)[len x - 1 := 0], len := len x - 1\<rparr>)
      else x)"
  by pat_completeness auto
termination
  by (relation "measure (\<lambda>(L, x). len x)") (auto simp: redundant_top_def)

text \<open>The canonical form of the data model: well-formed, with no redundant top limb.\<close>

definition canonical :: "nat \<Rightarrow> bigint \<Rightarrow> bool" where
  "canonical L x = (well_formed L x \<and> \<not> redundant_top L x)"

subsection \<open>The value of an object\<close>

fun limbs_val :: "nat \<Rightarrow> nat list \<Rightarrow> nat" where
  "limbs_val L [] = 0"
| "limbs_val L (x # xs) = x + 2 ^ L * limbs_val L xs"

definition uval :: "nat \<Rightarrow> bigint \<Rightarrow> nat" where
  "uval L x = limbs_val L (take (len x) (val x))"

definition to_int :: "nat \<Rightarrow> bigint \<Rightarrow> int" where
  "to_int L x = (if Sign L x then int (uval L x) - 2 ^ (L * len x) else int (uval L x))"

subsection \<open>Bit inversion and negation\<close>

text \<open>\<open>ToBitInv\<close> (\<open>bigint_bit_arith.cpp\<close>): \<open>val_[i] = ~val_[i]\<close> for \<open>i < len_\<close>.\<close>

definition ToBitInv :: "nat \<Rightarrow> bigint \<Rightarrow> bigint" where
  "ToBitInv L x =
     x\<lparr>val := fold (\<lambda>i v. v[i := 2 ^ L - 1 - v ! i]) [0..<len x] (val x)\<rparr>"

text \<open>
  Modelled from the spec: \<open>ToOpposite\<close>. "Negation is two's-complement: \<open>~x + 1\<close> over the
  active limbs, with a length bump if the sign bit would otherwise be wrong", followed by the
  canonicalization that the spec places after every mutation.
\<close>

fun inc_limbs :: "nat \<Rightarrow> nat list \<Rightarrow> nat list" where
  "inc_limbs L [] = []"
| "inc_limbs L (x # xs) = (if x + 1 < 2 ^ L then (x + 1) # xs else 0 # inc_limbs L xs)"

definition ToOpposite :: "nat \<Rightarrow> bigint \<Rightarrow> bigint" where
  "ToOpposite L x =
     (let s = Sign L x;
          y = ToBitInv L x;
          y1 = y\<lparr>val := inc_limbs L (take (len y) (val y)) @ drop (len y) (val y)\<rparr>;
          y2 = (if s \<and> Sign L y1 then SetLen L y1 (len y1 + 1) False else y1)
      in ShrinkLen L y2)"

section \<open>Shifts (\<open>bigint_bit_arith.cpp\<close>)\<close>

text \<open>
  \<open>operator<<=\<close>. The two loops run downwards from \<open>new_len - 1\<close> while \<open>i > q\<close> and update
  the buffer in place. After \<open>AutoExpandSize\<close> the capacity is at least \<open>new_len\<close>, so
  every index is inside the buffer.
\<close>

definition shl :: "nat \<Rightarrow> bigint \<Rightarrow> nat \<Rightarrow> bigint" where
  "shl L x rhs =
     (let q = rhs div L; r = rhs mod L;
          new_len0 = (len x + q + (if 0 < r then 1 else 0)) mod 2 ^ 64;
          new_len = (if new_len0 < len x then MAX_CAP else new_len0);
          x1 = (if cap x < new_len then AutoExpandSize x new_len else x)
      in if new_len \<le> q
         then AutoShrinkSize (x1\<lparr>val := fill (val x1) 0 (len x1) 0, len := 1\<rparr>)
         else
           let v1 = (if r \<noteq> 0
                     then (let w = fold (\<lambda>i v. v[i := IntT L (push_bit r (v ! (i - q)) +
                                                     drop_bit (L - r) (v ! (i - q - 1)))])
                                        (rev [Suc q..<new_len]) (val x1)
                           in w[q := IntT L (push_bit r (w ! 0))])
                     else fold (\<lambda>i v. v[i := v ! (i - q)]) (rev [Suc q..<new_len]) (val x1));
               v2 = (if q \<noteq> 0 then fill v1 0 q 0 else v1)
           in \<lparr>len = (if 1 < new_len \<and> v2 ! (new_len - 1) = 0 then new_len - 1 else new_len),
               val = v2\<rparr>)"

text \<open>
  \<open>operator>>=\<close>. \<open>new_len = len_ - q\<close> is a \<open>size_t\<close> subtraction; the test
  \<open>new_len > len_\<close> catches its wrap-around.
\<close>

definition shr :: "nat \<Rightarrow> bigint \<Rightarrow> nat \<Rightarrow> bigint" where
  "shr L x rhs =
     (let q = rhs div L; r = rhs mod L;
          new_len = sub64 (len x) q
      in AutoShrinkSize
          (if len x < new_len \<or> new_len = 0
           then x\<lparr>val := fill (val x) 0 (len x) 0, len := 1\<rparr>
           else
             let v1 = (if r \<noteq> 0
                       then (let w = fold (\<lambda>i v. v[i := IntT L (drop_bit r (v ! (i + q)) +
                                                       push_bit (L - r) (v ! (i + q + 1)))])
                                          [0..<new_len - 1] (val x)
                             in w[new_len - 1 := IntT L (drop_bit r (w ! (len x - 1)))])
                       else fold (\<lambda>i v. v[i := v ! (i + q)]) [0..<new_len] (val x));
                 v2 = (if q \<noteq> 0 then fill v1 new_len (len x) 0 else v1)
             in \<lparr>len = (if 1 < new_len \<and> v2 ! (new_len - 1) = 0 then new_len - 1 else new_len),
                 val = v2\<rparr>))"

section \<open>Comparison and additive arithmetic\<close>

text \<open>
  Modelled from the spec: the constructor \<open>BigInt(int value = 0)\<close> at the value zero. "An
  integer is born with \<open>cap=1, len=1, val[0]=0\<close>."
\<close>

definition BigInt0 :: bigint where
  "BigInt0 = \<lparr>len = 1, val = [0]\<rparr>"

text \<open>
  Modelled from the spec: \<open>Compare\<close> (and the operators \<open><\<close> and \<open>==\<close> built on it).
  "If signs differ, the negative is smaller; otherwise the one with greater canonical \<open>len\<close> is
  greater in magnitude; otherwise compare limbs top-down."
\<close>

fun cmp_top_down :: "nat list \<Rightarrow> nat list \<Rightarrow> int" where
  "cmp_top_down (x # xs) (y # ys) =
     (if x \<noteq> y then (if y < x then 1 else - 1) else cmp_top_down xs ys)"
| "cmp_top_down _ _ = 0"

definition Compare :: "nat \<Rightarrow> bigint \<Rightarrow> bigint \<Rightarrow> int" where
  "Compare L a b =
     (if Sign L a \<noteq> Sign L b then (if Sign L a then - 1 else 1)
      else if len a \<noteq> len b then (if (len b < len a) \<noteq> Sign L a then 1 else - 1)
      else cmp_top_down (rev (take (len a) (val a))) (rev (take (len b) (val b))))"

definition less_big :: "nat \<Rightarrow> bigint \<Rightarrow> bigint \<Rightarrow> bool" where
  "less_big L a b = (Compare L a b < 0)"

definition eq_big :: "nat \<Rightarrow> bigint \<Rightarrow> bigint \<Rightarrow> bool" where
  "eq_big L a b = (Compare L a b = 0)"

text \<open>
  Modelled from the spec: \<open>operator+=\<close>. "Pairwise limb add with carry, sign-extending the
  shorter operand. Result length may be \<open>max(len_a, len_b)+1\<close> before canonicalization."
\<close>

fun add_limbs :: "nat \<Rightarrow> nat list \<Rightarrow> nat list \<Rightarrow> nat \<Rightarrow> nat list" where
  "add_limbs L (x # xs) (y # ys) c =
     ((x + y + c) mod 2 ^ L) # add_limbs L xs ys ((x + y + c) div 2 ^ L)"
| "add_limbs L _ _ c = []"

definition add_big :: "nat \<Rightarrow> bigint \<Rightarrow> bigint \<Rightarrow> bigint" where
  "add_big L a b =
     (let n = max (len a) (len b) + 1;
          a1 = SetLen L a n True;
          b1 = SetLen L b n True
      in ShrinkLen L
           (a1\<lparr>val := add_limbs L (take n (val a1)) (take n (val b1)) 0 @ drop n (val a1)\<rparr>))"

text \<open>
  Modelled from the spec: unary \<open>operator-\<close> (a negated copy) and \<open>operator-=\<close>.
  "Subtraction is defined as \<open>a + (-b)\<close>."
\<close>

definition sub_big :: "nat \<Rightarrow> bigint \<Rightarrow> bigint \<Rightarrow> bigint" where
  "sub_big L a b = add_big L a (ToOpposite L b)"

text \<open>
  Modelled from the spec: \<open>operator*(BigInt, IntT)\<close>, that is \<open>BasicMulEq\<close> on a copy.
  "Multiply each limb by \<open>r\<close>, propagating 64-bit carries; extend by one limb if needed."
  The operand is extended by one limb first and canonicalized afterwards.
\<close>

fun mul_limbs :: "nat \<Rightarrow> nat list \<Rightarrow> nat \<Rightarrow> nat \<Rightarrow> nat list" where
  "mul_limbs L [] r c = []"
| "mul_limbs L (x # xs) r c = ((x * r + c) mod 2 ^ L) # mul_limbs L xs r ((x * r + c) div 2 ^ L)"

definition BasicMulEq :: "nat \<Rightarrow> bigint \<Rightarrow> nat \<Rightarrow> bigint" where
  "BasicMulEq L a r =
     (let n = len a + 1;
          a1 = SetLen L a n True
      in ShrinkLen L (a1\<lparr>val := mul_limbs L (take n (val a1)) r 0 @ drop n (val a1)\<rparr>))"

section \<open>Division (\<open>bigint_divmod.cpp\<close>)\<close>

text \<open>
  What a call can do besides returning: read a limb outside its buffer, divide a 64-bit word
  by zero, or never leave a loop.
\<close>

datatype 'a outcome = Return 'a | OutOfBounds | DivideTrap | Diverges

fun then_do :: "'a outcome \<Rightarrow> ('a \<Rightarrow> 'b outcome) \<Rightarrow> 'b outcome" where
  "then_do (Return a) f = f a"
| "then_do OutOfBounds f = OutOfBounds"
| "then_do DivideTrap f = DivideTrap"
| "then_do Diverges f = Diverges"

text \<open>A read of \<open>val_[i]\<close> at a computed \<open>size_t\<close> index.\<close>

definition rd :: "nat list \<Rightarrow> nat \<Rightarrow> nat outcome" where
  "rd xs i = (if i < length xs then Return (xs ! i) else OutOfBounds)"

subsection \<open>\<open>BasicDivEq\<close>\<close>

text \<open>
  The loop \<open>while (!(tmp_rhs & 1)) { ++log_rhs; tmp_rhs >>= 1; }\<close>. It is entered only after
  the early return for \<open>rhs == 0\<close>, so \<open>tmp_rhs\<close> is not zero.
\<close>

function strip_twos :: "nat \<Rightarrow> nat \<Rightarrow> nat \<Rightarrow> nat \<times> nat" where
  "strip_twos L tmp_rhs log_rhs =
     (if tmp_rhs \<noteq> 0 \<and> even tmp_rhs
      then strip_twos L (drop_bit 1 tmp_rhs) (IntT L (log_rhs + 1))
      else (tmp_rhs, log_rhs))"
  by pat_completeness auto
termination
  by (relation "measure (\<lambda>(L, t, l). t)") (auto simp: drop_bit_eq_div)

text \<open>
  The sweep \<open>for (i = len_ - 1; i != size_t(-1); --i)\<close> with the running 64-bit \<open>t\<close>.
\<close>

definition div_sweep :: "nat \<Rightarrow> nat \<Rightarrow> bigint \<Rightarrow> nat \<times> nat list" where
  "div_sweep L rhs x =
     fold (\<lambda>i (t, v). let t' = u64 (push_bit L (t mod rhs)) OR v ! i
                       in (t', v[i := IntT L (t' div rhs)]))
          (rev [0..<len x]) (0, val x)"

text \<open>
  \<open>BasicDivEq(IntT rhs, IntT* mod)\<close>. The pointer \<open>mod\<close> is the argument \<open>md\<close>:
  \<open>None\<close> for \<open>nullptr\<close> and \<open>Some v\<close> for a limb that holds \<open>v\<close>; the second component
  of the result is that limb after the call.
\<close>

definition BasicDivEq :: "nat \<Rightarrow> bigint \<Rightarrow> nat \<Rightarrow> nat option \<Rightarrow> bigint \<times> nat option" where
  "BasicDivEq L x rhs md =
     (if rhs = 0 \<or> rhs = 1 then (x, md)
      else
        let sign = Sign L x;
            x1 = (if sign then ToOpposite L x else x);
            (tmp_rhs, log_rhs) = strip_twos L rhs 0;
            (t, x2) = (if len x1 = 1
                       then (val x1 ! 0 mod rhs, x1\<lparr>val := (val x1)[0 := val x1 ! 0 div rhs]\<rparr>)
                       else if tmp_rhs = 1 then (0, shr L x1 log_rhs)
                       else (let (t', v') = div_sweep L rhs x1 in (t', x1\<lparr>val := v'\<rparr>)));
            x3 = (if sign then ToOpposite L x2 else x2);
            x4 = ShrinkLen L x3
        in (x4, case md of None \<Rightarrow> None
                | Some _ \<Rightarrow> Some (if sign \<and> t \<noteq> 0 then IntT L (rhs - t mod rhs)
                                   else IntT L (t mod rhs))))"

subsection \<open>\<open>PlainDivEq\<close>\<close>

text \<open>\<open>for (i = len_ - 1; i != size_t(-1); --i) x = (x << LIMB) | val_[i]\<close>.\<close>

definition pack :: "nat \<Rightarrow> bigint \<Rightarrow> nat" where
  "pack L x = fold (\<lambda>i acc. u64 (push_bit L acc) OR val x ! i) (rev [0..<len x]) 0"

text \<open>
  \<open>while (z) { val_[i++] = IntT(z); z >>= LIMB; }\<close>, returning the final \<open>i\<close> and the buffer.
  \<open>LIMB\<close> is never zero.
\<close>

function unpack :: "nat \<Rightarrow> nat \<Rightarrow> nat \<Rightarrow> nat list \<Rightarrow> nat \<times> nat list" where
  "unpack L z i v =
     (if z = 0 \<or> L = 0 then (i, v) else unpack L (drop_bit L z) (i + 1) (v[i := IntT L z]))"
  by pat_completeness auto
termination
  by (relation "measure (\<lambda>(L, z, i, v). z)")
    (auto simp: drop_bit_eq_div intro!: div_less_dividend one_less_power)

text \<open>
  \<open>PlainDivEq(const BigInt& rhs, BigInt* mod)\<close>. \<open>z = x / y\<close> is a 64-bit division; it
  traps when \<open>y\<close> is zero.
\<close>

definition PlainDivEq ::
  "nat \<Rightarrow> bigint \<Rightarrow> bigint \<Rightarrow> bigint option \<Rightarrow> (bigint \<times> bigint option) outcome" where
  "PlainDivEq L this rhs md =
     (if eq_big L rhs BigInt0 then Return (this, md)
      else
        let sign = Sign L this;
            x1 = (if sign then ToOpposite L this else this);
            x = pack L x1;
            y0 = pack L rhs;
            y = (if Sign L rhs then sub64 0 y0 else y0)
        in if y = 0 then DivideTrap
           else
             let z = x div y;
                 w = sub64 x (u64 (z * y));
                 (i, v) = unpack L z 0 (val x1);
                 x2 = \<lparr>len = (if i \<noteq> 0 then i else 1), val = fill v i (len x1) 0\<rparr>;
                 x3 = (if Sign L x2 then SetLen L x2 (len x2 + 1) False else x2);
                 x4 = (if sign \<noteq> Sign L rhs then ToOpposite L x3 else x3)
             in Return
                  (x4, case md of None \<Rightarrow> None
                       | Some m \<Rightarrow>
                           let m1 = SetLen L m (64 div L) False;
                               (j, mv) = unpack L w 0 (val m1);
                               m2 = \<lparr>len = (if j \<noteq> 0 then j else 1), val = fill mv j (len m1) 0\<rparr>
                           in Some (if sign then ToOpposite L m2 else m2)))"

subsection \<open>Algorithm A\<close>

text \<open>
  The normalization loop \<open>while (test_tmp < (IntT(1) << (LIMB - 1))) { test_tmp <<= 1; ++mov; }\<close>
  of \<open>DivEqAlgA\<close>. Nothing bounds it: \<open>None\<close> is the loop that never ends.
\<close>

partial_function (option) norm_shift :: "nat \<Rightarrow> nat \<Rightarrow> nat \<Rightarrow> nat option" where
  "norm_shift L test_tmp mov =
     (if test_tmp < 2 ^ (L - 1) then norm_shift L (IntT L (push_bit 1 test_tmp)) (u64 (mov + 1))
      else Some mov)"

declare norm_shift.simps [code]

text \<open>
  The trial quotient of one iteration: \<open>q = u1 / v1\<close>, the clamp to \<open>b - 1\<close>, \<open>r = u1 - q * v1\<close>
  and the single refinement test \<open>if (q * v2 > b * r + u2) { --q; r += v1; }\<close>, all in
  \<open>uint64_t\<close>.
\<close>

definition trial_quotient :: "nat \<Rightarrow> nat \<Rightarrow> nat \<Rightarrow> nat \<Rightarrow> nat \<Rightarrow> nat" where
  "trial_quotient L u1 u2 v1 v2 =
     (let b = 2 ^ L;
          q0 = u1 div v1;
          q = (if b \<le> q0 then b - 1 else q0);
          r = sub64 u1 (u64 (q * v1))
      in if u64 (b * r + u2) < u64 (q * v2) then sub64 q 1 else q)"

text \<open>
  The state of the main loop: the receiver \<open>*this\<close>, \<open>result\<close>, the running \<open>u1\<close>, and as a
  ghost component the trial quotients in the order they were computed (the value of \<open>q\<close> just
  before \<open>*this -= ...\<close>).
\<close>

type_synonym loop_state = "bigint \<times> bigint \<times> nat \<times> nat list"

text \<open>
  In the long-division branch the divisor \<open>v\<close> is \<open>tmp_obj\<close> when \<open>rhs\<close> is negative and
  \<open>rhs\<close> otherwise; the two branches of the source agree in everything else. Every read of
  \<open>val_\<close> at a computed \<open>size_t\<close> index is checked against the buffer.

  The window of one iteration: the new \<open>u1\<close> and \<open>u2\<close>.
\<close>

definition alga_window ::
  "nat \<Rightarrow> nat \<Rightarrow> nat \<Rightarrow> nat \<Rightarrow> bigint \<Rightarrow> nat \<Rightarrow> (nat \<times> nat) outcome" where
  "alga_window L n mov i x u1 =
     (if mov \<noteq> 0
      then then_do (rd (val x) (sub64 (u64 (i + n)) 2)) (\<lambda>a2.
           then_do (rd (val x) (sub64 (u64 (i + n)) 3)) (\<lambda>a3.
             Return (u64 (push_bit mov u1) OR drop_bit (L - mov) a2,
                     IntT L (push_bit mov a2) OR drop_bit (L - mov) a3)))
      else then_do (rd (val x) (sub64 (u64 (i + n)) 2)) (\<lambda>a2. Return (u1, a2)))"

text \<open>
  \<open>*this -= (rhs * IntT(q)) << (i * LIMB); if (Sign()) { --q; *this += rhs << (i * LIMB); }\<close>,
  returning the receiver and \<open>q\<close>. Algorithm B has the same two statements.
\<close>

definition add_back :: "nat \<Rightarrow> bigint \<Rightarrow> nat \<Rightarrow> bigint \<Rightarrow> nat \<Rightarrow> bigint \<times> nat" where
  "add_back L v i x1 q =
     (if Sign L x1 then (add_big L x1 (shl L v (u64 (i * L))), sub64 q 1) else (x1, q))"

definition sub_digit :: "nat \<Rightarrow> bigint \<Rightarrow> nat \<Rightarrow> bigint \<Rightarrow> nat \<Rightarrow> bigint \<times> nat" where
  "sub_digit L v i x q =
     add_back L v i (sub_big L x (shl L (BasicMulEq L v (IntT L q)) (u64 (i * L)))) q"

text \<open>
  The end of an iteration of Algorithm A: \<open>result.val_[i] = q\<close> and the next \<open>u1\<close>.
\<close>

definition alga_finish ::
  "nat \<Rightarrow> nat \<Rightarrow> nat \<Rightarrow> bigint \<Rightarrow> nat list \<Rightarrow> nat \<Rightarrow> bigint \<times> nat \<Rightarrow> loop_state outcome" where
  "alga_finish L n i result qs q p =
     (case p of (x2, q') \<Rightarrow>
        then_do (rd (val x2) (sub64 (u64 (i + n)) 1)) (\<lambda>b1.
        then_do (rd (val x2) (sub64 (u64 (i + n)) 2)) (\<lambda>b2.
          Return (x2, result\<lparr>val := (val result)[i := IntT L q']\<rparr>, push_bit L b1 OR b2,
                  qs @ [q]))))"

text \<open>One iteration of \<open>for (size_t i = len_ - tmp_obj.len_; i != size_t(-1); --i)\<close>.\<close>

definition alga_step ::
  "nat \<Rightarrow> bigint \<Rightarrow> nat \<Rightarrow> nat \<Rightarrow> nat \<Rightarrow> nat \<Rightarrow> loop_state \<Rightarrow> loop_state outcome" where
  "alga_step L v mov v1 v2 i st =
     (case st of (x, result, u1, qs) \<Rightarrow>
        then_do (alga_window L (len v) mov i x u1) (\<lambda>(u1', u2).
          if v1 = 0 then DivideTrap
          else alga_finish L (len v) i result qs (trial_quotient L u1' u2 v1 v2)
                 (sub_digit L v i x (trial_quotient L u1' u2 v1 v2))))"

fun alga_loop ::
  "nat \<Rightarrow> bigint \<Rightarrow> nat \<Rightarrow> nat \<Rightarrow> nat \<Rightarrow> nat \<Rightarrow> loop_state \<Rightarrow> loop_state outcome" where
  "alga_loop L v mov v1 v2 0 st = alga_step L v mov v1 v2 0 st"
| "alga_loop L v mov v1 v2 (Suc i) st =
     then_do (alga_step L v mov v1 v2 (Suc i) st) (alga_loop L v mov v1 v2 i)"

text \<open>
  The normalized top limbs \<open>v1\<close> and \<open>v2\<close> of the divisor.
\<close>

definition alga_v12 :: "nat \<Rightarrow> bigint \<Rightarrow> nat \<Rightarrow> (nat \<times> nat) outcome" where
  "alga_v12 L v mov =
     (if mov \<noteq> 0
      then then_do (rd (val v) (sub64 (len v) 1)) (\<lambda>t1.
           then_do (rd (val v) (sub64 (len v) 2)) (\<lambda>t2.
           then_do (rd (val v) (sub64 (len v) 3)) (\<lambda>t3.
             Return (IntT L (push_bit mov t1) OR drop_bit (L - mov) t2,
                     IntT L (push_bit mov t2) OR drop_bit (L - mov) t3))))
      else then_do (rd (val v) (sub64 (len v) 1)) (\<lambda>t1.
           then_do (rd (val v) (sub64 (len v) 2)) (\<lambda>t2. Return (t1, t2))))"

text \<open>
  The long-division branch: \<open>result.SetLen(len_ - tmp_obj.len_ + 2, false)\<close>, \<open>v1\<close> and
  \<open>v2\<close>, \<open>u1 = val_[len_ - 1]\<close> and the loop.
\<close>

definition alga_long :: "nat \<Rightarrow> bigint \<Rightarrow> bigint \<Rightarrow> nat \<Rightarrow> loop_state outcome" where
  "alga_long L x v mov =
     then_do (alga_v12 L v mov) (\<lambda>(v1, v2).
     then_do (rd (val x) (sub64 (len x) 1)) (\<lambda>u1.
       alga_loop L v mov v1 v2 (sub64 (len x) (len v))
         (x, SetLen L BigInt0 (u64 (sub64 (len x) (len v) + 2)) False, u1, [])))"

text \<open>
  The branches that \<open>DivEqAlgA\<close> and \<open>DivEqAlgB\<close> share before long division: a dividend
  below the divisor, the call of \<open>PlainDivEq\<close>, and the call of \<open>BasicDivEq\<close> with
  \<open>mod->val_\<close> as the remainder limb followed by \<open>mod->SetLen(1, false)\<close>.
\<close>

definition basic_branch ::
  "nat \<Rightarrow> bigint \<Rightarrow> bigint \<Rightarrow> bigint option \<Rightarrow> bigint \<times> bigint option" where
  "basic_branch L x v md =
     (case md of
        None \<Rightarrow> (fst (BasicDivEq L x (val v ! 0) None), None)
      | Some m \<Rightarrow>
          (case BasicDivEq L x (val v ! 0) (Some (val m ! 0)) of
             (x', Some r) \<Rightarrow> (x', Some (SetLen L (m\<lparr>val := (val m)[0 := r]\<rparr>) 1 False))
           | (x', None) \<Rightarrow> (x', Some (SetLen L m 1 False))))"

text \<open>
  The last three statements of both algorithms: \<open>if (mod && sign) mod->ToOpposite();\<close>
  \<open>if (mod) mod->ShrinkLen();\<close> \<open>ShrinkLen();\<close>.
\<close>

definition finish_div ::
  "nat \<Rightarrow> bool \<Rightarrow> bigint \<times> bigint option \<Rightarrow> (bigint \<times> bigint option) outcome" where
  "finish_div L sign p =
     (case p of (x, md) \<Rightarrow>
        Return (ShrinkLen L x,
                map_option (\<lambda>m. ShrinkLen L (if sign then ToOpposite L m else m)) md))"

text \<open>
  \<open>DivEqAlgA\<close> after \<open>if (sign) ToOpposite()\<close>: \<open>x\<close> is the receiver, \<open>v\<close> the divisor
  without its sign, \<open>sign\<close> and \<open>rsign\<close> are \<open>sign\<close> and \<open>rhs.Sign()\<close>.
\<close>

definition alga_abs ::
  "nat \<Rightarrow> bool \<Rightarrow> bool \<Rightarrow> bigint \<Rightarrow> bigint \<Rightarrow> bigint option \<Rightarrow> (bigint \<times> bigint option) outcome"
  where
  "alga_abs L sign rsign x v md =
     (case norm_shift L (val v ! (len v - 1)) 0 of
        None \<Rightarrow> Diverges
      | Some mov \<Rightarrow>
          then_do
            (if less_big L x v
             then Return (x\<lparr>val := fill (val x) 0 (len x) 0, len := 1\<rparr>, map_option (\<lambda>_. x) md)
             else if len v \<le> 64 div L \<and> len x \<le> 64 div L then PlainDivEq L x v md
             else if len v = 1 then Return (basic_branch L x v md)
             else then_do (alga_long L x v mov) (\<lambda>(x', result, u1, qs).
                    Return (if sign \<noteq> rsign then ToOpposite L result else result,
                            map_option (\<lambda>_. x') md)))
            (finish_div L sign))"

definition DivEqAlgA ::
  "nat \<Rightarrow> bigint \<Rightarrow> bigint \<Rightarrow> bigint option \<Rightarrow> (bigint \<times> bigint option) outcome" where
  "DivEqAlgA L this rhs md =
     (if eq_big L rhs BigInt0 then Return (this, md)
      else alga_abs L (Sign L this) (Sign L rhs)
             (if Sign L this then ToOpposite L this else this)
             (if Sign L rhs then ToOpposite L rhs else rhs) md)"

subsection \<open>Algorithm B\<close>

text \<open>
  The end of an iteration of Algorithm B: \<open>result.val_[i] = q\<close> and the next three-limb
  \<open>u\<close>.
\<close>

definition algb_finish ::
  "nat \<Rightarrow> nat \<Rightarrow> nat \<Rightarrow> bigint \<Rightarrow> nat list \<Rightarrow> nat \<Rightarrow> bigint \<times> nat \<Rightarrow> loop_state outcome" where
  "algb_finish L n i result qs q p =
     (case p of (x2, q') \<Rightarrow>
        then_do (rd (val x2) (sub64 (u64 (i + n)) 1)) (\<lambda>b1.
        then_do (rd (val x2) (sub64 (u64 (i + n)) 2)) (\<lambda>b2.
        then_do (rd (val x2) (sub64 (u64 (i + n)) 3)) (\<lambda>b3.
          Return (x2, result\<lparr>val := (val result)[i := IntT L q']\<rparr>,
                  u64 (push_bit (2 * L) b1) OR u64 (push_bit L b2) OR b3, qs @ [q])))))"

definition clamp_quotient :: "nat \<Rightarrow> nat \<Rightarrow> nat \<Rightarrow> nat" where
  "clamp_quotient L u vv = (if 2 ^ L \<le> u div vv then 2 ^ L - 1 else u div vv)"

definition algb_step :: "nat \<Rightarrow> bigint \<Rightarrow> nat \<Rightarrow> nat \<Rightarrow> loop_state \<Rightarrow> loop_state outcome" where
  "algb_step L v vv i st =
     (case st of (x, result, u, qs) \<Rightarrow>
        if vv = 0 then DivideTrap
        else algb_finish L (len v) i result qs (clamp_quotient L u vv)
               (sub_digit L v i x (clamp_quotient L u vv)))"

fun algb_loop :: "nat \<Rightarrow> bigint \<Rightarrow> nat \<Rightarrow> nat \<Rightarrow> loop_state \<Rightarrow> loop_state outcome" where
  "algb_loop L v vv 0 st = algb_step L v vv 0 st"
| "algb_loop L v vv (Suc i) st = then_do (algb_step L v vv (Suc i) st) (algb_loop L v vv i)"

definition algb_long :: "nat \<Rightarrow> bigint \<Rightarrow> bigint \<Rightarrow> loop_state outcome" where
  "algb_long L x v =
     then_do (rd (val v) (sub64 (len v) 1)) (\<lambda>t1.
     then_do (rd (val v) (sub64 (len v) 2)) (\<lambda>t2.
     then_do (rd (val x) (sub64 (len x) 1)) (\<lambda>s1.
     then_do (rd (val x) (sub64 (len x) 2)) (\<lambda>s2.
       algb_loop L v (push_bit L t1 OR t2) (sub64 (len x) (len v))
         (x, SetLen L BigInt0 (u64 (sub64 (len x) (len v) + 2)) False, push_bit L s1 OR s2, [])))))"

definition algb_abs ::
  "nat \<Rightarrow> bool \<Rightarrow> bool \<Rightarrow> bigint \<Rightarrow> bigint \<Rightarrow> bigint option \<Rightarrow> (bigint \<times> bigint option) outcome"
  where
  "algb_abs L sign rsign x v md =
     then_do
       (if less_big L x v
        then Return (x\<lparr>val := fill (val x) 0 (len x) 0, len := 1\<rparr>, map_option (\<lambda>_. x) md)
        else if len v \<le> 64 div L \<and> len x \<le> 64 div L then PlainDivEq L x v md
        else if len v = 1 then Return (basic_branch L x v md)
        else then_do (algb_long L x v) (\<lambda>(x', result, u, qs).
               Return (if sign \<noteq> rsign then ToOpposite L result else result,
                       map_option (\<lambda>_. x') md)))
       (finish_div L sign)"

text \<open>
  \<open>DivEqAlgB\<close>, with the explicit specialization for \<open>uint32_t\<close> and the
  \<open>if constexpr (LIMB > 21)\<close> of the generic definition.
\<close>

definition DivEqAlgB ::
  "nat \<Rightarrow> bigint \<Rightarrow> bigint \<Rightarrow> bigint option \<Rightarrow> (bigint \<times> bigint option) outcome" where
  "DivEqAlgB L this rhs md =
     (if L = 32 then DivEqAlgA L this rhs md
      else if eq_big L rhs BigInt0 then Return (this, md)
      else if 21 < L then DivEqAlgA L this rhs md
      else algb_abs L (Sign L this) (Sign L rhs)
             (if Sign L this then ToOpposite L this else this)
             (if Sign L rhs then ToOpposite L rhs else rhs) md)"

subsection \<open>The operators and the non-modifying forms\<close>

text \<open>\<open>operator/=(const BigInt& rhs)\<close>.\<close>

definition div_assign :: "nat \<Rightarrow> bigint \<Rightarrow> bigint \<Rightarrow> bigint outcome" where
  "div_assign L this rhs =
     (if len this \<le> 64 div L \<and> len rhs \<le> 64 div L
      then then_do (PlainDivEq L this rhs None) (\<lambda>p. Return (fst p))
      else if len rhs = 1 then Return (fst (BasicDivEq L this (val rhs ! 0) None))
      else if 21 < L then then_do (DivEqAlgA L this rhs None) (\<lambda>p. Return (fst p))
      else then_do (DivEqAlgB L this rhs None) (\<lambda>p. Return (fst p)))"

text \<open>
  \<open>operator%=(const BigInt& rhs)\<close>: the local \<open>BigInt<IntT> mod\<close> is passed as the remainder
  slot and then moved into \<open>*this\<close>.
\<close>

definition mod_assign :: "nat \<Rightarrow> bigint \<Rightarrow> bigint \<Rightarrow> bigint outcome" where
  "mod_assign L this rhs =
     then_do
       (if len this \<le> 64 div L \<and> len rhs \<le> 64 div L then PlainDivEq L this rhs (Some BigInt0)
        else if 21 < L then DivEqAlgA L this rhs (Some BigInt0)
        else DivEqAlgB L this rhs (Some BigInt0))
       (\<lambda>p. case snd p of Some m \<Rightarrow> Return m | None \<Rightarrow> Return BigInt0)"

text \<open>
  The static forms \<open>BasicDiv\<close>, \<open>PlainDiv\<close>, \<open>DivAlgA\<close> and \<open>DivAlgB\<close> take \<open>lhs\<close> by value
  and return the result of the corresponding member on it.
\<close>

definition BasicDiv :: "nat \<Rightarrow> bigint \<Rightarrow> nat \<Rightarrow> nat option \<Rightarrow> bigint \<times> nat option" where
  "BasicDiv L lhs rhs md = BasicDivEq L lhs rhs md"

definition PlainDiv ::
  "nat \<Rightarrow> bigint \<Rightarrow> bigint \<Rightarrow> bigint option \<Rightarrow> (bigint \<times> bigint option) outcome" where
  "PlainDiv L lhs rhs md = PlainDivEq L lhs rhs md"

definition DivAlgA ::
  "nat \<Rightarrow> bigint \<Rightarrow> bigint \<Rightarrow> bigint option \<Rightarrow> (bigint \<times> bigint option) outcome" where
  "DivAlgA L lhs rhs md = DivEqAlgA L lhs rhs md"

definition DivAlgB ::
  "nat \<Rightarrow> bigint \<Rightarrow> bigint \<Rightarrow> bigint option \<Rightarrow> (bigint \<times> bigint option) outcome" where
  "DivAlgB L lhs rhs md = DivEqAlgB L lhs rhs md"

text \<open>
  The numeric result of a division that was given a remainder slot: quotient and remainder as
  integers, when the call returns. The remainder of \<open>BasicDiv\<close> is a limb.
\<close>

definition result_values :: "nat \<Rightarrow> (bigint \<times> bigint option) outcome \<Rightarrow> (int \<times> int) option" where
  "result_values L out =
     (case out of Return (q, Some r) \<Rightarrow> Some (to_int L q, to_int L r) | _ \<Rightarrow> None)"

definition basic_values :: "nat \<Rightarrow> bigint \<times> nat option \<Rightarrow> (int \<times> int) option" where
  "basic_values L p = (case p of (q, Some r) \<Rightarrow> Some (to_int L q, int r) | _ \<Rightarrow> None)"

section \<open>Division dispatch\<close>

text \<open>
  C4. For every \<open>a\<close> and \<open>b\<close>, \<open>a /= b\<close> runs \<open>PlainDivEq\<close> when both operands fit in 64 bits
  (\<open>len * LIMB \<le> 64\<close>), else \<open>BasicDivEq\<close> on the single limb of \<open>b\<close> when \<open>b\<close> has one limb,
  else Algorithm A when \<open>LIMB > 21\<close> and Algorithm B when \<open>LIMB \<le> 21\<close>; and \<open>DivEqAlgB\<close> with
  \<open>LIMB > 21\<close> is \<open>DivEqAlgA\<close>.
\<close>

theorem div_assign_dispatch:
  assumes "valid_limb L"
  shows "div_assign L a b =
           (if len a * L \<le> 64 \<and> len b * L \<le> 64
            then then_do (PlainDivEq L a b None) (\<lambda>p. Return (fst p))
            else if len b = 1 then Return (fst (BasicDivEq L a (val b ! 0) None))
            else if 21 < L then then_do (DivEqAlgA L a b None) (\<lambda>p. Return (fst p))
            else then_do (DivEqAlgB L a b None) (\<lambda>p. Return (fst p)))
         \<and> (21 < L \<longrightarrow> DivEqAlgB L a b md = DivEqAlgA L a b md)"
proof -
  have pos: "0 < L"
    using assms by (auto simp: valid_limb_def)
  have fits: "n \<le> 64 div L \<longleftrightarrow> n * L \<le> 64" for n
    using pos by (simp add: less_eq_div_iff_mult_less_eq)
  have "21 < L \<Longrightarrow> L = 32"
    using assms by (auto simp: valid_limb_def)
  then show ?thesis
    by (auto simp: div_assign_def fits DivEqAlgB_def)
qed

theorem div_assign_dispatch_witness:
  "valid_limb 32 \<and>
   div_assign 32 \<lparr>len = 3, val = [0, 0, 1, 0]\<rparr> \<lparr>len = 2, val = [1, 1]\<rparr> =
     then_do (DivEqAlgA 32 \<lparr>len = 3, val = [0, 0, 1, 0]\<rparr> \<lparr>len = 2, val = [1, 1]\<rparr> None)
       (\<lambda>p. Return (fst p)) \<and>
   DivEqAlgB 32 \<lparr>len = 3, val = [0, 0, 1, 0]\<rparr> \<lparr>len = 2, val = [1, 1]\<rparr> None =
     DivEqAlgA 32 \<lparr>len = 3, val = [0, 0, 1, 0]\<rparr> \<lparr>len = 2, val = [1, 1]\<rparr> None"
proof -
  have v: "valid_limb 32"
    by (simp add: valid_limb_def)
  show ?thesis
    using v div_assign_dispatch [OF v, of "\<lparr>len = 3, val = [0, 0, 1, 0]\<rparr>"
        "\<lparr>len = 2, val = [1, 1]\<rparr>" None]
    by simp
qed

section \<open>Inputs on which the code leaves the specified behaviour\<close>

text \<open>
  C1. Division identity. With 16-bit limbs, \<open>a = 17\<close> and \<open>b = -3\<close>: \<open>a /= b\<close> gives \<open>0\<close> and
  \<open>a %= b\<close> gives \<open>17\<close>, so the magnitude of the remainder is not below the magnitude of the
  divisor. \<open>PlainDivEq\<close> packs the single limb \<open>0xFFFD\<close> of \<open>b\<close> into a 64-bit word without
  sign extension before negating it.
\<close>

theorem div_identity_negative_divisor:
  "canonical 16 \<lparr>len = 1, val = [17]\<rparr> \<and> to_int 16 \<lparr>len = 1, val = [17]\<rparr> = 17 \<and>
   canonical 16 \<lparr>len = 1, val = [65533]\<rparr> \<and> to_int 16 \<lparr>len = 1, val = [65533]\<rparr> = - 3 \<and>
   div_assign 16 \<lparr>len = 1, val = [17]\<rparr> \<lparr>len = 1, val = [65533]\<rparr>
     = Return \<lparr>len = 1, val = [0]\<rparr> \<and>
   mod_assign 16 \<lparr>len = 1, val = [17]\<rparr> \<lparr>len = 1, val = [65533]\<rparr>
     = Return \<lparr>len = 1, val = [17, 0, 0, 0]\<rparr> \<and>
   to_int 16 \<lparr>len = 1, val = [0]\<rparr> = 0 \<and>
   to_int 16 \<lparr>len = 1, val = [17, 0, 0, 0]\<rparr> = 17"
  by code_simp

text \<open>
  C2. Division by zero. With 16-bit limbs and \<open>a = 5\<close>: \<open>a /= 0\<close> leaves \<open>a\<close> unchanged, but
  \<open>a %= 0\<close> gives \<open>0\<close>: \<open>PlainDivEq\<close> returns before it writes the remainder slot, and
  \<open>operator%=\<close> moves the untouched slot into \<open>*this\<close>.
\<close>

theorem mod_assign_zero_divisor:
  "div_assign 16 \<lparr>len = 1, val = [5]\<rparr> \<lparr>len = 1, val = [0]\<rparr> = Return \<lparr>len = 1, val = [5]\<rparr> \<and>
   mod_assign 16 \<lparr>len = 1, val = [5]\<rparr> \<lparr>len = 1, val = [0]\<rparr> = Return \<lparr>len = 1, val = [0]\<rparr> \<and>
   to_int 16 \<lparr>len = 1, val = [5]\<rparr> = 5 \<and> to_int 16 \<lparr>len = 1, val = [0]\<rparr> = 0"
  by code_simp

text \<open>
  C6. Remainder of \<open>BasicDivEq\<close>. With 16-bit limbs, \<open>a = 65537\<close> and \<open>r = 2\<close>: the divisor is
  a power of two and \<open>a\<close> has two limbs, so the quotient comes from \<open>*this >>= log_rhs\<close>; \<open>t\<close>
  keeps its initial \<open>0\<close> and the limb written to \<open>*mod\<close> is \<open>0\<close>, not \<open>65537 mod 2 = 1\<close>.
\<close>

theorem BasicDivEq_power_of_two_remainder:
  "canonical 16 \<lparr>len = 2, val = [1, 1]\<rparr> \<and> to_int 16 \<lparr>len = 2, val = [1, 1]\<rparr> = 65537 \<and>
   snd (BasicDivEq 16 \<lparr>len = 2, val = [1, 1]\<rparr> 2 (Some 7)) = Some 0 \<and>
   (65537 :: nat) mod 2 = 1"
  by code_simp

text \<open>
  C7. Shift laws. With 16-bit limbs, \<open>a = 1\<close> and \<open>k = 16\<close>: \<open>a <<= k\<close> gives \<open>0\<close>, not
  \<open>1 * 2 ^ 16\<close>, and shifting back gives \<open>0\<close>, not \<open>a\<close>. For \<open>k mod LIMB = 0\<close> the copy loop
  stops at \<open>i > q\<close> and never stores \<open>val_[0]\<close> in \<open>val_[q]\<close>; the branch for
  \<open>k mod LIMB \<noteq> 0\<close> has that store.
\<close>

theorem shl_whole_limb_loses_low_limb:
  "canonical 16 \<lparr>len = 1, val = [1]\<rparr> \<and> to_int 16 \<lparr>len = 1, val = [1]\<rparr> = 1 \<and>
   shl 16 \<lparr>len = 1, val = [1]\<rparr> 16 = \<lparr>len = 1, val = [0, 0]\<rparr> \<and>
   to_int 16 (shl 16 \<lparr>len = 1, val = [1]\<rparr> 16) = 0 \<and>
   to_int 16 (shr 16 (shl 16 \<lparr>len = 1, val = [1]\<rparr> 16) 16) = 0"
  by code_simp

text \<open>
  C8. Canonical form. With 16-bit limbs: \<open>0 << 17\<close> has \<open>len = 2\<close> with two zero limbs, and
  \<open>PlainDivEq\<close> on \<open>a = 0xFFFF8000\<close> and \<open>b = 2 ^ 32\<close> writes the remainder with
  \<open>len = 2\<close> and limbs \<open>0x8000, 0xFFFF\<close>; neither is canonical (and the remainder reads as
  \<open>-32768\<close>). \<open>operator<<=\<close> drops at most one zero limb, and \<open>PlainDivEq\<close> extends the
  quotient by a sign limb but not the remainder.
\<close>

theorem canonical_form_violations:
  "canonical 16 \<lparr>len = 1, val = [0]\<rparr> \<and>
   shl 16 \<lparr>len = 1, val = [0]\<rparr> 17 = \<lparr>len = 2, val = [0, 0, 0, 0]\<rparr> \<and>
   \<not> canonical 16 \<lparr>len = 2, val = [0, 0, 0, 0]\<rparr> \<and>
   canonical 16 \<lparr>len = 3, val = [32768, 65535, 0, 0]\<rparr> \<and>
   canonical 16 \<lparr>len = 3, val = [0, 0, 1, 0]\<rparr> \<and>
   PlainDivEq 16 \<lparr>len = 3, val = [32768, 65535, 0, 0]\<rparr> \<lparr>len = 3, val = [0, 0, 1, 0]\<rparr>
       (Some BigInt0)
     = Return (\<lparr>len = 1, val = [0, 0, 0, 0]\<rparr>, Some \<lparr>len = 2, val = [32768, 65535, 0, 0]\<rparr>) \<and>
   \<not> canonical 16 \<lparr>len = 2, val = [32768, 65535, 0, 0]\<rparr> \<and>
   to_int 16 \<lparr>len = 2, val = [32768, 65535, 0, 0]\<rparr> = - 32768"
  by code_simp

section \<open>Right shift of a negative number\<close>

lemma length_fold_update [simp]:
  "length (fold (\<lambda>i v. v[i := g i v]) is xs) = length xs"
  by (induction "is" arbitrary: xs) auto

lemma nth_fold_update_other:
  "k \<notin> set is \<Longrightarrow> fold (\<lambda>i v. v[i := g i v]) is xs ! k = xs ! k"
  by (induction "is" arbitrary: xs) auto

lemma length_fill [simp]: "length (fill xs i j v) = length xs"
  by (simp add: fill_def)

lemma nth_fill: "k < length xs \<Longrightarrow> fill xs i j v ! k = (if i \<le> k \<and> k < j then v else xs ! k)"
  by (simp add: fill_def)

lemma sub64_small: "b \<le> a \<Longrightarrow> a < 2 ^ 64 \<Longrightarrow> sub64 a b = a - b"
proof -
  assume a: "b \<le> a" "a < 2 ^ 64"
  have 1: "b mod 2 ^ 64 = b"
    using a by simp
  have 2: "a + (2 ^ 64 - b) = 2 ^ 64 + (a - b)"
    using a by linarith
  show ?thesis
    by (simp only: sub64_def 1 2 mod_add_self1) (use a in simp)
qed

lemma well_formed_len_bound: "well_formed L x \<Longrightarrow> len x < 2 ^ 64"
  by (auto simp: well_formed_def MAX_CAP_def cap_def)

text \<open>
  C10. For a negative \<open>a\<close> and a shift count \<open>k\<close> with \<open>k mod LIMB \<noteq> 0\<close> and
  \<open>k div LIMB < len\<close>, \<open>a >>= k\<close> has \<open>len - k div LIMB\<close> limbs, its top limb is the old top
  limb shifted right by \<open>k mod LIMB\<close>, so the vacated high bits are zero, and the result is
  not negative.
\<close>

theorem shr_negative_top:
  assumes L: "valid_limb L" and wfa: "well_formed L a" and neg: "Sign L a"
    and r: "k mod L \<noteq> 0" and q: "k div L < len a"
  shows "len (shr L a k) = len a - k div L \<and>
         val (shr L a k) ! (len (shr L a k) - 1) = val a ! (len a - 1) div 2 ^ (k mod L) \<and>
         val (shr L a k) ! (len (shr L a k) - 1) < 2 ^ (L - k mod L) \<and>
         \<not> Sign L (shr L a k)"
proof -
  define n where "n = len a"
  define qq where "qq = k div L"
  define rr where "rr = k mod L"
  define nl where "nl = n - qq"
  define top where "top = val a ! (n - 1)"
  define T where "T = top div 2 ^ rr"
  have Lpos: "0 < L" using L by (auto simp: valid_limb_def)
  have rrL: "rr < L" "0 < rr" using r Lpos by (auto simp: rr_def)
  have n: "1 \<le> n" "n \<le> length (val a)" "n < 2 ^ 64"
    using wfa well_formed_len_bound [OF wfa] by (auto simp: well_formed_def n_def cap_def)
  have nl: "1 \<le> nl" "nl \<le> n" using q by (auto simp: nl_def n_def qq_def)
  have new_len: "sub64 n qq = nl"
    using q n by (simp add: sub64_small nl_def qq_def n_def)
  have top_lt: "top < 2 ^ L"
    using wfa n by (auto simp: well_formed_def top_def list_all_length)
  have top_ge: "2 ^ (L - 1) \<le> top"
    using neg by (simp add: Sign_def top_def n_def)
  have T_lt: "T < 2 ^ (L - rr)"
  proof -
    have "top < 2 ^ rr * 2 ^ (L - rr)"
      using top_lt rrL by (simp flip: power_add)
    then show ?thesis
      by (simp add: T_def less_mult_imp_div_less mult.commute)
  qed
  have T_pos: "0 < T"
  proof -
    have "2 ^ rr \<le> (2::nat) ^ (L - 1)"
      using rrL by (intro power_increasing) auto
    then have "2 ^ rr \<le> top" using top_ge by (rule order_trans)
    then show ?thesis by (simp add: T_def div_greater_zero_iff)
  qed
  have T_small: "T < 2 ^ (L - 1)"
  proof -
    have "(2::nat) ^ (L - rr) \<le> 2 ^ (L - 1)"
      using rrL by (intro power_increasing) auto
    with T_lt show ?thesis by (rule less_le_trans)
  qed
  have T_IntT: "IntT L T = T"
  proof -
    have "(2::nat) ^ (L - rr) \<le> 2 ^ L" by (intro power_increasing) auto
    with T_lt have "T < 2 ^ L" by (rule less_le_trans)
    then show ?thesis by (simp add: IntT_def)
  qed
  define w where "w = fold (\<lambda>i v. v[i := IntT L (drop_bit rr (v ! (i + qq)) +
                            push_bit (L - rr) (v ! (i + qq + 1)))]) [0..<nl - 1] (val a)"
  define v1 where "v1 = w[nl - 1 := IntT L (drop_bit rr (w ! (n - 1)))]"
  define v2 where "v2 = (if qq \<noteq> 0 then fill v1 nl n 0 else v1)"
  define y where "y = \<lparr>len = (if 1 < nl \<and> v2 ! (nl - 1) = 0 then nl - 1 else nl), val = v2\<rparr>"
  have c1: "sub64 (len a) (k div L) = len a - k div L"
    using q n by (simp add: sub64_small n_def)
  have c2: "(len a < len a - k div L \<or> len a - k div L = 0) = False"
    using q by auto
  have c3: "(k mod L \<noteq> 0) = True"
    using r by simp
  have shr_eq: "shr L a k = AutoShrinkSize y"
    unfolding y_def v2_def v1_def w_def nl_def n_def qq_def rr_def shr_def Let_def
    by (simp only: c1 c2 c3 if_False if_True)
  have len_w: "length w = length (val a)" by (simp add: w_def)
  have "w ! (n - 1) = val a ! (n - 1)"
    unfolding w_def using nl by (intro nth_fold_update_other) auto
  then have "IntT L (drop_bit rr (w ! (n - 1))) = T"
    using T_IntT by (simp add: T_def top_def drop_bit_eq_div)
  then have v1_top: "v1 ! (nl - 1) = T"
    using nl n len_w by (simp add: v1_def)
  have v2_top: "v2 ! (nl - 1) = T"
    using v1_top nl n len_w by (auto simp: v2_def nth_fill v1_def)
  have y_len: "len y = nl" using v2_top T_pos by (simp add: y_def)
  have y_val: "val y ! (nl - 1) = T" using v2_top by (simp add: y_def)
  have len_v2: "length v2 = length (val a)" by (simp add: v2_def v1_def len_w)
  have s_len: "len (AutoShrinkSize y) = nl"
    using y_len by (simp add: AutoShrinkSize_def)
  have s_val: "val (AutoShrinkSize y) ! (nl - 1) = T"
  proof (cases "len y \<le> cap y div 4 \<and> 1 < cap y")
    case True
    then have "nl - 1 < cap y div 2" using y_len nl by auto
    with True show ?thesis using y_val by (simp add: AutoShrinkSize_def)
  next
    case False
    then show ?thesis using y_val by (auto simp: AutoShrinkSize_def)
  qed
  show ?thesis
    using s_len s_val T_lt T_small
    by (simp add: shr_eq Sign_def T_def top_def nl_def n_def qq_def rr_def)
qed

theorem shr_negative_top_witness:
  "valid_limb 16 \<and> well_formed 16 \<lparr>len = 1, val = [65535]\<rparr> \<and> Sign 16 \<lparr>len = 1, val = [65535]\<rparr> \<and>
   (1 :: nat) mod 16 \<noteq> 0 \<and> (1 :: nat) div 16 < len \<lparr>len = 1, val = [65535]\<rparr> \<and>
   len (shr 16 \<lparr>len = 1, val = [65535]\<rparr> 1) = 1 \<and>
   val (shr 16 \<lparr>len = 1, val = [65535]\<rparr> 1) ! 0 = 32767 \<and>
   \<not> Sign 16 (shr 16 \<lparr>len = 1, val = [65535]\<rparr> 1)"
proof -
  have h: "valid_limb 16" "well_formed 16 \<lparr>len = 1, val = [65535]\<rparr>" "Sign 16 \<lparr>len = 1, val = [65535]\<rparr>"
    "(1 :: nat) mod 16 \<noteq> 0" "(1 :: nat) div 16 < len \<lparr>len = 1, val = [65535]\<rparr>"
    by code_simp+
  show ?thesis
    using h shr_negative_top [OF h] by auto
qed

section \<open>Long division by Algorithm A on concrete operands\<close>

lemma alga_abs_long:
  assumes "norm_shift L (val v ! (len v - 1)) 0 = Some mov"
    and "\<not> less_big L x v" and "\<not> (len v \<le> 64 div L \<and> len x \<le> 64 div L)" and "len v \<noteq> 1"
  shows "alga_abs L sign rsign x v md =
           then_do
             (then_do (alga_long L x v mov) (\<lambda>(x', result, u1, qs).
                Return (if sign \<noteq> rsign then ToOpposite L result else result,
                        map_option (\<lambda>_. x') md)))
             (finish_div L sign)"
  using assms by (auto simp: alga_abs_def)

lemma DivEqAlgA_nonneg:
  assumes "\<not> eq_big L rhs BigInt0" and "\<not> Sign L this" and "\<not> Sign L rhs"
  shows "DivEqAlgA L this rhs md = alga_abs L False False this rhs md"
  using assms by (simp add: DivEqAlgA_def)

lemma alga_step_eval:
  assumes "alga_window L (len v) mov i x u1 = Return (u1', u2)"
    and "v1 \<noteq> 0"
    and "trial_quotient L u1' u2 v1 v2 = q"
    and "BasicMulEq L v (IntT L q) = p"
    and "shl L p (u64 (i * L)) = ps"
    and "sub_big L x ps = x1"
    and "add_back L v i x1 q = (x2, q')"
    and "rd (val x2) (sub64 (u64 (i + len v)) 1) = Return b1"
    and "rd (val x2) (sub64 (u64 (i + len v)) 2) = Return b2"
  shows "alga_step L v mov v1 v2 i (x, result, u1, qs) =
           Return (x2, result\<lparr>val := (val result)[i := IntT L q']\<rparr>, push_bit L b1 OR b2, qs @ [q])"
  using assms by (simp add: alga_step_def sub_digit_def alga_finish_def)

lemma alga_long_eval:
  assumes "alga_v12 L v mov = Return (v1, v2)"
    and "rd (val x) (sub64 (len x) 1) = Return u1"
    and "sub64 (len x) (len v) = i"
    and "SetLen L BigInt0 (u64 (i + 2)) False = result"
  shows "alga_long L x v mov = alga_loop L v mov v1 v2 i (x, result, u1, [])"
  using assms by (simp add: alga_long_def)

lemma alga_loop_1:
  "alga_loop L v mov v1 v2 1 st =
     then_do (alga_step L v mov v1 v2 1 st) (alga_step L v mov v1 v2 0)"
proof -
  have "alga_loop L v mov v1 v2 (Suc 0) st =
          then_do (alga_step L v mov v1 v2 (Suc 0) st) (alga_loop L v mov v1 v2 0)"
    by (rule alga_loop.simps)
  moreover have "alga_loop L v mov v1 v2 0 = alga_step L v mov v1 v2 0"
    by (rule ext) simp
  ultimately show ?thesis
    by simp
qed

text \<open>
  C9. In-bounds reads of Algorithm A. With 32-bit limbs, \<open>a = 2 ^ 64\<close> (three limbs) and
  \<open>b = 2 ^ 32 + 1\<close> (two limbs, top limb \<open>1\<close>, so \<open>mov = 31\<close>): the call reaches long
  division, and the normalization of \<open>v2\<close> reads the divisor at index \<open>len - 3\<close>, which wraps
  to \<open>2 ^ 64 - 1\<close>, outside the buffer. \<open>a /= b\<close> takes this path.
\<close>

theorem DivEqAlgA_reads_out_of_bounds:
  "canonical 32 \<lparr>len = 3, val = [0, 0, 1, 0]\<rparr> \<and> to_int 32 \<lparr>len = 3, val = [0, 0, 1, 0]\<rparr> = 2 ^ 64 \<and>
   canonical 32 \<lparr>len = 2, val = [1, 1]\<rparr> \<and> to_int 32 \<lparr>len = 2, val = [1, 1]\<rparr> = 2 ^ 32 + 1 \<and>
   DivEqAlgA 32 \<lparr>len = 3, val = [0, 0, 1, 0]\<rparr> \<lparr>len = 2, val = [1, 1]\<rparr> None = OutOfBounds \<and>
   div_assign 32 \<lparr>len = 3, val = [0, 0, 1, 0]\<rparr> \<lparr>len = 2, val = [1, 1]\<rparr> = OutOfBounds"
proof -
  let ?a = "\<lparr>len = 3, val = [0, 0, 1, 0]\<rparr>" and ?b = "\<lparr>len = 2, val = [1, 1]\<rparr>"
  have inputs: "canonical 32 ?a \<and> to_int 32 ?a = 2 ^ 64 \<and> canonical 32 ?b \<and> to_int 32 ?b = 2 ^ 32 + 1"
    by code_simp
  have mov: "norm_shift 32 (val ?b ! (len ?b - 1)) 0 = Some 31"
    by (simp add: norm_shift.simps IntT_def u64_def)
  have v12: "alga_v12 32 ?b 31 = OutOfBounds"
    by code_simp
  have long: "alga_long 32 ?a ?b 31 = OutOfBounds"
    by (simp only: alga_long_def v12 then_do.simps)
  have p1: "\<not> less_big 32 ?a ?b"
    by code_simp
  have p2: "\<not> (len ?b \<le> 64 div 32 \<and> len ?a \<le> 64 div 32)"
    by code_simp
  have p3: "len ?b \<noteq> 1"
    by code_simp
  have "alga_abs 32 False False ?a ?b None = OutOfBounds"
    by (simp only: alga_abs_long [OF mov p1 p2 p3] long then_do.simps)
  moreover have "DivEqAlgA 32 ?a ?b None = alga_abs 32 False False ?a ?b None"
    by (rule DivEqAlgA_nonneg; code_simp)
  ultimately have a: "DivEqAlgA 32 ?a ?b None = OutOfBounds"
    by simp
  have "div_assign 32 ?a ?b = then_do (DivEqAlgA 32 ?a ?b None) (\<lambda>p. Return (fst p))"
    by (simp add: div_assign_def)
  with a have "div_assign 32 ?a ?b = OutOfBounds"
    by simp
  with inputs a show ?thesis
    by blast
qed

text \<open>
  C5. Trial quotient of Algorithm A. With 32-bit limbs, \<open>a = 2 ^ 96 + 2 ^ 64\<close> and
  \<open>b = 2 ^ 64 + 2 ^ 32\<close>: the quotient is \<open>2 ^ 32\<close>, with the digits \<open>1\<close> (at \<open>i = 1\<close>) and \<open>0\<close>
  (at \<open>i = 0\<close>). \<open>mov\<close> is \<open>31\<close> and \<open>v1 = v2 = 2 ^ 31\<close>. The iteration \<open>i = 1\<close> computes the
  trial quotient \<open>1\<close> and leaves the receiver at \<open>2 ^ 96 + 2 ^ 64\<close>: the subtrahend
  \<open>(rhs * 1) << 32\<close> comes out as \<open>2 ^ 96 + 2 ^ 64 + 2 ^ 32\<close>, the difference is negative and
  the same amount is added back. The iteration \<open>i = 0\<close> then computes the trial quotient
  \<open>2 ^ 32 - 2\<close>: it is neither within one of the digit \<open>0\<close> of the quotient nor within one of
  \<open>2 ^ 32\<close>, the quotient of the receiver by \<open>b\<close> at that point.
\<close>

theorem trial_quotient_deviation:
  "canonical 32 \<lparr>len = 4, val = [0, 0, 1, 1]\<rparr> \<and>
   to_int 32 \<lparr>len = 4, val = [0, 0, 1, 1]\<rparr> = 2 ^ 96 + 2 ^ 64 \<and>
   canonical 32 \<lparr>len = 3, val = [0, 1, 1, 0]\<rparr> \<and>
   to_int 32 \<lparr>len = 3, val = [0, 1, 1, 0]\<rparr> = 2 ^ 64 + 2 ^ 32 \<and>
   ((2 ^ 96 + 2 ^ 64) div (2 ^ 64 + 2 ^ 32) :: int) = 1 * 2 ^ 32 + 0 \<and>
   norm_shift 32 (val \<lparr>len = 3, val = [0, 1, 1, 0]\<rparr> ! (len \<lparr>len = 3, val = [0, 1, 1, 0]\<rparr> - 1)) 0
     = Some 31 \<and>
   alga_v12 32 \<lparr>len = 3, val = [0, 1, 1, 0]\<rparr> 31 = Return (2147483648, 2147483648) \<and>
   alga_step 32 \<lparr>len = 3, val = [0, 1, 1, 0]\<rparr> 31 2147483648 2147483648 1
       (\<lparr>len = 4, val = [0, 0, 1, 1]\<rparr>, \<lparr>len = 3, val = [0, 0, 0, 0]\<rparr>, 1, [])
     = Return (\<lparr>len = 4, val = [0, 0, 1, 1, 0, 0, 0, 0]\<rparr>, \<lparr>len = 3, val = [0, 0, 0, 0]\<rparr>,
               4294967297, [1]) \<and>
   to_int 32 \<lparr>len = 4, val = [0, 0, 1, 1, 0, 0, 0, 0]\<rparr> = 2 ^ 96 + 2 ^ 64 \<and>
   alga_long 32 \<lparr>len = 4, val = [0, 0, 1, 1]\<rparr> \<lparr>len = 3, val = [0, 1, 1, 0]\<rparr> 31
     = Return (\<lparr>len = 4, val = [0, 2, 2, 1, 0, 0, 0, 0]\<rparr>, \<lparr>len = 3, val = [4294967294, 0, 0, 0]\<rparr>,
               8589934594, [1, 4294967294])"
proof -
  let ?a = "\<lparr>len = 4, val = [0, 0, 1, 1]\<rparr>" and ?b = "\<lparr>len = 3, val = [0, 1, 1, 0]\<rparr>"
  let ?r0 = "\<lparr>len = 3, val = [0, 0, 0, 0]\<rparr>"
  let ?a1 = "\<lparr>len = 4, val = [0, 0, 1, 1, 0, 0, 0, 0]\<rparr>"
  let ?a2 = "\<lparr>len = 4, val = [0, 2, 2, 1, 0, 0, 0, 0]\<rparr>"
  have inputs: "canonical 32 ?a \<and> to_int 32 ?a = 2 ^ 96 + 2 ^ 64 \<and>
      canonical 32 ?b \<and> to_int 32 ?b = 2 ^ 64 + 2 ^ 32 \<and>
      ((2 ^ 96 + 2 ^ 64) div (2 ^ 64 + 2 ^ 32) :: int) = 1 * 2 ^ 32 + 0 \<and>
      to_int 32 ?a1 = 2 ^ 96 + 2 ^ 64"
    by code_simp
  have mov: "norm_shift 32 (val ?b ! (len ?b - 1)) 0 = Some 31"
    by (simp add: norm_shift.simps IntT_def u64_def)
  have w1: "alga_window 32 (len ?b) 31 1 ?a 1 = Return (2147483648, 2147483648)"
    by code_simp
  have q1: "trial_quotient 32 2147483648 2147483648 2147483648 2147483648 = 1"
    by code_simp
  have m1: "BasicMulEq 32 ?b (IntT 32 1) = ?b"
    by code_simp
  have h1: "shl 32 ?b (u64 (1 * 32)) = \<lparr>len = 4, val = [0, 1, 1, 1]\<rparr>"
    by code_simp
  have d1: "sub_big 32 ?a \<lparr>len = 4, val = [0, 1, 1, 1]\<rparr>
      = \<lparr>len = 2, val = [0, 4294967295, 0, 0, 0, 0, 0, 0]\<rparr>"
    by code_simp
  have b1: "add_back 32 ?b 1 \<lparr>len = 2, val = [0, 4294967295, 0, 0, 0, 0, 0, 0]\<rparr> 1 = (?a1, 0)"
    by code_simp
  have r11: "rd (val ?a1) (sub64 (u64 (1 + len ?b)) 1) = Return 1"
    by code_simp
  have r12: "rd (val ?a1) (sub64 (u64 (1 + len ?b)) 2) = Return 1"
    by code_simp
  have "alga_step 32 ?b 31 2147483648 2147483648 1 (?a, ?r0, 1, []) =
      Return (?a1, ?r0\<lparr>val := (val ?r0)[1 := IntT 32 0]\<rparr>, push_bit 32 1 OR 1, [] @ [1])"
    by (rule alga_step_eval [OF w1 _ q1 m1 h1 d1 b1 r11 r12]) simp
  also have "\<dots> = Return (?a1, ?r0, 4294967297, [1])"
    by code_simp
  finally have s1: "alga_step 32 ?b 31 2147483648 2147483648 1 (?a, ?r0, 1, []) =
      Return (?a1, ?r0, 4294967297, [1])" .
  have w0: "alga_window 32 (len ?b) 31 0 ?a1 4294967297 = Return (9223372039002259456, 0)"
    by code_simp
  have q0: "trial_quotient 32 9223372039002259456 0 2147483648 2147483648 = 4294967294"
    by code_simp
  have m0: "BasicMulEq 32 ?b (IntT 32 4294967294) = \<lparr>len = 4, val = [0, 4294967294, 4294967294, 0]\<rparr>"
    by code_simp
  have h0: "shl 32 \<lparr>len = 4, val = [0, 4294967294, 4294967294, 0]\<rparr> (u64 (0 * 32))
      = \<lparr>len = 3, val = [0, 4294967294, 4294967294, 0]\<rparr>"
    by code_simp
  have d0: "sub_big 32 ?a1 \<lparr>len = 3, val = [0, 4294967294, 4294967294, 0]\<rparr> = ?a2"
    by code_simp
  have b0: "add_back 32 ?b 0 ?a2 4294967294 = (?a2, 4294967294)"
    by code_simp
  have r01: "rd (val ?a2) (sub64 (u64 (0 + len ?b)) 1) = Return 2"
    by code_simp
  have r02: "rd (val ?a2) (sub64 (u64 (0 + len ?b)) 2) = Return 2"
    by code_simp
  have "alga_step 32 ?b 31 2147483648 2147483648 0 (?a1, ?r0, 4294967297, [1]) =
      Return (?a2, ?r0\<lparr>val := (val ?r0)[0 := IntT 32 4294967294]\<rparr>, push_bit 32 2 OR 2,
              [1] @ [4294967294])"
    by (rule alga_step_eval [OF w0 _ q0 m0 h0 d0 b0 r01 r02]) simp
  also have "\<dots> = Return (?a2, \<lparr>len = 3, val = [4294967294, 0, 0, 0]\<rparr>, 8589934594, [1, 4294967294])"
    by code_simp
  finally have s0: "alga_step 32 ?b 31 2147483648 2147483648 0 (?a1, ?r0, 4294967297, [1]) =
      Return (?a2, \<lparr>len = 3, val = [4294967294, 0, 0, 0]\<rparr>, 8589934594, [1, 4294967294])" .
  have v12: "alga_v12 32 ?b 31 = Return (2147483648, 2147483648)"
    by code_simp
  have u1: "rd (val ?a) (sub64 (len ?a) 1) = Return 1"
    by code_simp
  have i1: "sub64 (len ?a) (len ?b) = 1"
    by code_simp
  have res: "SetLen 32 BigInt0 (u64 (1 + 2)) False = ?r0"
    by code_simp
  have "alga_long 32 ?a ?b 31 = alga_loop 32 ?b 31 2147483648 2147483648 1 (?a, ?r0, 1, [])"
    by (rule alga_long_eval [OF v12 u1 i1 res])
  also have "\<dots> = Return (?a2, \<lparr>len = 3, val = [4294967294, 0, 0, 0]\<rparr>, 8589934594, [1, 4294967294])"
    by (simp only: alga_loop_1 s1 s0 then_do.simps)
  finally show ?thesis
    using inputs mov v12 s1 by blast
qed

end
